theory Spec2Isabelle
  imports
    Complex_Main
    "HOL-Library.Word"
    "HOL-Library.Multiset"
    "HOL-Library.AList"
    "HOL-Library.List_Lexorder"
begin

section \<open>JavaScript values\<close>

text \<open>
  A JavaScript string is a sequence of UTF-16 code units; \<open>js\<close> writes an ASCII literal.
  Numbers that count, index or bound are integers; scores are exact rationals.
\<close>

type_synonym jsstring = "16 word list"

definition js :: "string \<Rightarrow> jsstring" where
  "js s = map (\<lambda>c. of_nat (of_char c)) s"

text \<open>What a \<open>throw\<close> (or a rejected promise) carries.\<close>

datatype error =
    TypeError
  | ExternalError nat
  | RepoPathMissing jsstring
  | RepoPathNotDirectory jsstring

text \<open>
  \<open>String.prototype.trim\<close> removes leading and trailing WhiteSpace and LineTerminator
  code units (ECMAScript: TAB, VT, FF, SP, NBSP, ZWNBSP, the Unicode space separators,
  LF, CR, LS, PS).
\<close>

definition is_js_whitespace :: "16 word \<Rightarrow> bool" where
  "is_js_whitespace c \<longleftrightarrow>
     c = 0x0009 \<or> c = 0x000A \<or> c = 0x000B \<or> c = 0x000C \<or> c = 0x000D \<or> c = 0x0020
     \<or> c = 0x00A0 \<or> c = 0x1680 \<or> (0x2000 \<le> c \<and> c \<le> 0x200A)
     \<or> c = 0x2028 \<or> c = 0x2029 \<or> c = 0x202F \<or> c = 0x205F \<or> c = 0x3000
     \<or> c = 0xFEFF"

definition trim :: "jsstring \<Rightarrow> jsstring" where
  "trim s = rev (dropWhile is_js_whitespace (rev (dropWhile is_js_whitespace s)))"

text \<open>
  \<open>xs.slice(0, n)\<close>: a negative end counts from the end of the array, and the result
  is empty when the end lies before the start.
\<close>

definition slice0 :: "'a list \<Rightarrow> int \<Rightarrow> 'a list" where
  "slice0 xs n = (if n < 0 then take (nat (int (length xs) + n)) xs else take (nat n) xs)"

text \<open>\<open>s.replace(/\\/g, '/')\<close>: every backslash becomes a forward slash.\<close>

definition normalize_slashes :: "jsstring \<Rightarrow> jsstring" where
  "normalize_slashes s = map (\<lambda>c. if c = 0x5C then 0x2F else c) s"


section \<open>Reciprocal Rank Fusion (\<open>search/fusion/rrf.ts\<close>)\<close>

text \<open>
  Identifiers handed to the fusion stage are either strings (lexical index,
  \<open>"file:line"\<close>) or numbers (vector index, the chunk id); the two kinds stay distinct
  as keys of a \<open>Map\<close>.
  Scores are JavaScript numbers in the source; the model computes them as exact
  rationals. The smoothing factor \<open>k\<close> ranges over the natural numbers (the documented
  values are 1, 10, 60, 100 and 1000), so that \<open>rank + 1 + k\<close> is never zero.
\<close>

datatype item_id = StrId jsstring | NumId int

record ranked_item =
  item_id :: item_id
  item_score :: "rat option"

record RRFOptions =
  opt_k :: "nat option"

record RRFResult =
  res_id :: item_id
  res_score :: rat

text \<open>
  \<open>scores\<close> is a \<open>Map\<close>: iteration follows the order of first insertion, and \<open>set\<close> on
  a key already present keeps its position. An association list updated in place has
  exactly this behaviour.
\<close>

type_synonym score_map = "(item_id \<times> rat) list"

definition scores_get :: "score_map \<Rightarrow> item_id \<Rightarrow> rat option" where
  "scores_get scores i = map_of scores i"

definition scores_set :: "score_map \<Rightarrow> item_id \<Rightarrow> rat \<Rightarrow> score_map" where
  "scores_set scores i v = AList.update i v scores"

text \<open>The inner loop \<open>for (let rank = 0; rank < rankedList.length; rank++)\<close>, from \<open>rank\<close> on.\<close>

fun accumulate_list :: "nat \<Rightarrow> nat \<Rightarrow> ranked_item list \<Rightarrow> score_map \<Rightarrow> score_map" where
  "accumulate_list k rank [] scores = scores"
| "accumulate_list k rank (item # rest) scores =
     (let rrfScore = 1 / (of_nat rank + 1 + of_nat k);
          currentScore = (case scores_get scores (item_id item) of Some s \<Rightarrow> s | None \<Rightarrow> 0)
      in accumulate_list k (Suc rank) rest
           (scores_set scores (item_id item) (currentScore + rrfScore)))"

text \<open>The outer loop \<open>for (const rankedList of rankedLists)\<close>.\<close>

fun accumulate_lists :: "nat \<Rightarrow> ranked_item list list \<Rightarrow> score_map \<Rightarrow> score_map" where
  "accumulate_lists k [] scores = scores"
| "accumulate_lists k (rankedList # rest) scores =
     accumulate_lists k rest (accumulate_list k 0 rankedList scores)"

text \<open>
  \<open>results.sort((a, b) => b.score - a.score)\<close>: \<open>Array.prototype.sort\<close> is stable, and the
  comparator puts the higher score first. \<open>sort_key\<close> is a stable insertion sort.
\<close>

definition sort_by_score_desc :: "RRFResult list \<Rightarrow> RRFResult list" where
  "sort_by_score_desc results = sort_key (\<lambda>r. - res_score r) results"

definition reciprocalRankFusion :: "ranked_item list list \<Rightarrow> RRFOptions \<Rightarrow> RRFResult list" where
  "reciprocalRankFusion rankedLists options =
     (let k = (case opt_k options of Some k' \<Rightarrow> k' | None \<Rightarrow> 60);
          scores = accumulate_lists k rankedLists [];
          results = map (\<lambda>(i, s). \<lparr>res_id = i, res_score = s\<rparr>) scores
      in sort_by_score_desc results)"

text \<open>Items of the literal scenarios: an id without a source score.\<close>

definition item :: "item_id \<Rightarrow> ranked_item" where
  "item i = \<lparr>item_id = i, item_score = None\<rparr>"

definition id_A :: item_id where "id_A = StrId (js ''A'')"
definition id_B :: item_id where "id_B = StrId (js ''B'')"
definition id_C :: item_id where "id_C = StrId (js ''C'')"
definition id_D :: item_id where "id_D = StrId (js ''D'')"


section \<open>Reranking (\<open>search/reranking\<close>)\<close>

text \<open>
  The hosted reranker and the local cross-encoder are outside the program: what they
  answer is a parameter of the model, and every call to one of them is recorded, in
  order, together with the warnings written to the console.
\<close>

record RerankCandidate =
  cand_id :: int
  cand_content :: jsstring

record RerankResult =
  rr_id :: int
  rr_score :: rat

datatype warning =
    CohereRerankFailed
  | OnnxNotInitialized
  | OnnxInferenceFailed
  | NoRerankerAvailable

datatype rerank_event =
    CohereRequest jsstring "jsstring list" int
  | OnnxInference jsstring
  | RerankWarn warning

text \<open>
  \<open>client_rerank query documents topN\<close> is the answer of the hosted service: a list of
  \<open>(index, relevanceScore)\<close>, or a rejection.
\<close>

record CohereReranker =
  client_rerank :: "jsstring \<Rightarrow> jsstring list \<Rightarrow> int \<Rightarrow> error + (int \<times> rat) list"

text \<open>
  \<open>session\<close> is \<open>null\<close> or an inference session; applied to the text of a
  (query, candidate) pair it tokenizes, runs the model and yields the first logit, or
  throws. \<open>tokenizer\<close> tells whether the tokenizer is present.
\<close>

record ONNXReranker =
  session :: "(jsstring \<Rightarrow> error + rat) option"
  tokenizer :: bool

datatype reranker_mode = ModeCohere | ModeOnnx | ModeNone

record Reranker =
  mode :: reranker_mode
  cohere :: "CohereReranker option"
  onnx :: "ONNXReranker option"

definition passthrough :: "RerankCandidate \<Rightarrow> RerankResult" where
  "passthrough c = \<lparr>rr_id = cand_id c, rr_score = 1\<rparr>"

text \<open>
  \<open>response.results.map((r) => ({ id: candidates[r.index].id, score: r.relevanceScore }))\<close>:
  an index outside the array reads \<open>undefined\<close>, and \<open>undefined.id\<close> throws.
\<close>

fun cohere_results :: "RerankCandidate list \<Rightarrow> (int \<times> rat) list \<Rightarrow> error + RerankResult list" where
  "cohere_results candidates [] = Inr []"
| "cohere_results candidates ((index, relevanceScore) # rest) =
     (if 0 \<le> index \<and> index < int (length candidates) then
        (case cohere_results candidates rest of
           Inl e \<Rightarrow> Inl e
         | Inr rs \<Rightarrow>
             Inr (\<lparr>rr_id = cand_id (candidates ! nat index), rr_score = relevanceScore\<rparr> # rs))
      else Inl TypeError)"

definition rerankWithCohere ::
  "CohereReranker \<Rightarrow> jsstring \<Rightarrow> RerankCandidate list \<Rightarrow> int
     \<Rightarrow> rerank_event list \<times> (error + RerankResult list)" where
  "rerankWithCohere reranker query candidates topN =
     (let contentArray = map cand_content candidates in
      ([CohereRequest query contentArray topN],
       (case client_rerank reranker query contentArray topN of
          Inl e \<Rightarrow> Inl e
        | Inr results \<Rightarrow> cohere_results candidates results)))"

text \<open>
  The scoring loop of \<open>rerankWithONNX\<close>: one inference per candidate on
  \<open>`${query} [SEP] ${candidate.content.slice(0, 2000)}`\<close>; the first failure leaves the loop.
\<close>

fun onnx_score_all ::
  "(jsstring \<Rightarrow> error + rat) \<Rightarrow> jsstring \<Rightarrow> RerankCandidate list
     \<Rightarrow> rerank_event list \<times> (error + RerankResult list)" where
  "onnx_score_all run query [] = ([], Inr [])"
| "onnx_score_all run query (candidate # rest) =
     (let text = query @ js '' [SEP] '' @ take 2000 (cand_content candidate) in
      case run text of
        Inl e \<Rightarrow> ([OnnxInference text], Inl e)
      | Inr score \<Rightarrow>
          (case onnx_score_all run query rest of
             (events, Inl e) \<Rightarrow> (OnnxInference text # events, Inl e)
           | (events, Inr scored) \<Rightarrow>
               (OnnxInference text # events,
                Inr (\<lparr>rr_id = cand_id candidate, rr_score = score\<rparr> # scored))))"

definition rerankWithONNX ::
  "ONNXReranker \<Rightarrow> jsstring \<Rightarrow> RerankCandidate list \<Rightarrow> int
     \<Rightarrow> rerank_event list \<times> (error + RerankResult list)" where
  "rerankWithONNX reranker query candidates topN =
     (case session reranker of
        None \<Rightarrow>
          ([RerankWarn OnnxNotInitialized], Inr (map passthrough (slice0 candidates topN)))
      | Some run \<Rightarrow>
          if \<not> tokenizer reranker then
            ([RerankWarn OnnxNotInitialized], Inr (map passthrough (slice0 candidates topN)))
          else
            (case onnx_score_all run query candidates of
               (events, Inl e) \<Rightarrow>
                 (events @ [RerankWarn OnnxInferenceFailed],
                  Inr (map passthrough (slice0 candidates topN)))
             | (events, Inr scoredCandidates) \<Rightarrow>
                 (events,
                  Inr (slice0 (sort_key (\<lambda>r. - rr_score r) scoredCandidates) topN))))"

text \<open>What \<open>rerank\<close> does once the Cohere attempt is over (or was not made).\<close>

definition rerank_fallback ::
  "Reranker \<Rightarrow> jsstring \<Rightarrow> RerankCandidate list \<Rightarrow> int
     \<Rightarrow> rerank_event list \<times> (error + RerankResult list)" where
  "rerank_fallback reranker query candidates topN =
     (case onnx reranker of
        Some ort \<Rightarrow> rerankWithONNX ort query candidates topN
      | None \<Rightarrow>
          ([RerankWarn NoRerankerAvailable], Inr (map passthrough (slice0 candidates topN))))"

text \<open>\<open>rerank(reranker, query, candidates, topN = 12)\<close>; \<open>None\<close> is the omitted argument.\<close>

definition rerank ::
  "Reranker \<Rightarrow> jsstring \<Rightarrow> RerankCandidate list \<Rightarrow> int option
     \<Rightarrow> rerank_event list \<times> (error + RerankResult list)" where
  "rerank reranker query candidates topN_arg =
     (let topN = (case topN_arg of Some n \<Rightarrow> n | None \<Rightarrow> 12) in
      if length candidates = 0 then ([], Inr [])
      else if int (length candidates) \<le> topN then ([], Inr (map passthrough candidates))
      else
        (case (mode reranker, cohere reranker) of
           (ModeCohere, Some c) \<Rightarrow>
             (case rerankWithCohere c query candidates topN of
                (events, Inr results) \<Rightarrow> (events, Inr results)
              | (events, Inl e) \<Rightarrow>
                  (case rerank_fallback reranker query candidates topN of
                     (events', r) \<Rightarrow> (events @ RerankWarn CohereRerankFailed # events', r)))
         | _ \<Rightarrow> rerank_fallback reranker query candidates topN))"


section \<open>The chunk store as the retrieval path reads it (\<open>persistence/repository.ts\<close>)\<close>

record ChunkRow =
  chunk_id :: "int option"
  chunk_filePath :: jsstring
  chunk_symbolName :: "jsstring option"
  chunk_symbolType :: jsstring
  chunk_content :: jsstring
  chunk_contentHash :: jsstring
  chunk_startLine :: int
  chunk_endLine :: int
  chunk_language :: jsstring

text \<open>
  The \<open>chunks\<close> table: its rows in table order, each with the id the store gave it, and
  the last id handed out (\<open>INTEGER PRIMARY KEY AUTOINCREMENT\<close>).
\<close>

record Database =
  chunk_rows :: "ChunkRow list"
  last_id :: int

text \<open>\<open>SELECT * FROM chunks WHERE file_path = ?\<close>\<close>

definition getChunksByFile :: "Database \<Rightarrow> jsstring \<Rightarrow> ChunkRow list" where
  "getChunksByFile db path = filter (\<lambda>row. chunk_filePath row = path) (chunk_rows db)"

text \<open>\<open>SELECT * FROM chunks WHERE id IN (...)\<close>\<close>

definition getChunksByIds :: "Database \<Rightarrow> int list \<Rightarrow> ChunkRow list" where
  "getChunksByIds db ids =
     (if length ids = 0 then []
      else filter (\<lambda>row. case chunk_id row of Some i \<Rightarrow> i \<in> set ids | None \<Rightarrow> False)
             (chunk_rows db))"

text \<open>\<open>SELECT id FROM chunks WHERE file_path = ? AND start_line = ? LIMIT 1\<close>\<close>

definition select_id_by_file_line :: "Database \<Rightarrow> jsstring \<Rightarrow> int \<Rightarrow> int option" where
  "select_id_by_file_line db path line =
     (case find (\<lambda>row. chunk_filePath row = path \<and> chunk_startLine row = line) (chunk_rows db) of
        None \<Rightarrow> None
      | Some row \<Rightarrow> chunk_id row)"

section \<open>Hybrid search (\<open>search/search.ts\<close>, \<open>bm25/searcher.ts\<close>, \<open>vector/searcher.ts\<close>, \<open>fusion/merger.ts\<close>)\<close>

text \<open>
  The lexical index, the embedding model and the vector index are library objects.
  Each is modelled by what it answers: the Orama index by its term search (query and
  limit to hits), the embedder by the vector it produces for a text, the HNSW index by
  its nearest-neighbour search (vector and limit to keys with distances). Each may throw.
\<close>

record BM25Result =
  bm_id :: jsstring
  bm_filePath :: jsstring
  bm_symbolName :: jsstring
  bm_content :: jsstring
  bm_startLine :: int
  bm_endLine :: int
  bm_score :: rat

record VectorResult =
  vec_id :: int
  vec_score :: rat

type_synonym OramaDB = "jsstring \<Rightarrow> int \<Rightarrow> error + BM25Result list"
type_synonym EmbeddingModel = "jsstring \<Rightarrow> error + rat list"
type_synonym VectorIndex = "rat list \<Rightarrow> int \<Rightarrow> error + (int \<times> rat) list"

record SearchOptions =
  bm25Limit :: "int option"
  vectorLimit :: "int option"
  fusionLimit :: "int option"
  rrfK :: "nat option"

record SearchResult =
  sr_id :: int
  sr_filePath :: jsstring
  sr_symbolName :: jsstring
  sr_content :: jsstring
  sr_startLine :: int
  sr_endLine :: int
  sr_score :: rat

text \<open>The calls \<open>hybridSearch\<close> makes to its three collaborators, in order.\<close>

datatype search_event =
    CallSearchBM25 jsstring int
  | CallEmbedText jsstring
  | CallSearchVector "rat list" int

definition searchBM25 :: "OramaDB \<Rightarrow> jsstring \<Rightarrow> int \<Rightarrow> error + BM25Result list" where
  "searchBM25 db query limit =
     (if query = [] \<or> trim query = [] \<or> limit \<le> 0 then Inr []
      else db query limit)"

definition embedText :: "EmbeddingModel \<Rightarrow> jsstring \<Rightarrow> error + rat list" where
  "embedText embedder text = embedder text"

definition searchVector :: "VectorIndex \<Rightarrow> rat list \<Rightarrow> int \<Rightarrow> error + VectorResult list" where
  "searchVector index queryEmbedding limit =
     (if limit \<le> 0 then Inr []
      else if length queryEmbedding = 0 then Inr []
      else
        (case index queryEmbedding limit of
           Inl e \<Rightarrow> Inl e
         | Inr results \<Rightarrow>
             Inr (map (\<lambda>(key, distance). \<lparr>vec_id = key, vec_score = 1 - distance\<rparr>) results)))"

text \<open>
  \<open>mergeResults\<close>: the fused ids are looked up in one batch; \<open>chunkMap\<close> is a \<open>Map\<close> built
  from \<open>[id, chunk]\<close> entries, where a later entry for the same id replaces the value.
\<close>

definition mergeResults :: "Database \<Rightarrow> (int \<times> rat) list \<Rightarrow> SearchResult list" where
  "mergeResults db rrfResults =
     (if length rrfResults = 0 then []
      else
        (let ids = map fst rrfResults;
             chunks = getChunksByIds db ids;
             chunkMap = foldl (\<lambda>m chunk. AList.update (chunk_id chunk) chunk m) [] chunks
         in List.map_filter
              (\<lambda>(chunkId, score).
                 case map_of chunkMap (Some chunkId) of
                   None \<Rightarrow> None
                 | Some chunk \<Rightarrow>
                     Some \<lparr>sr_id = chunkId,
                           sr_filePath = chunk_filePath chunk,
                           sr_symbolName = (case chunk_symbolName chunk of Some n \<Rightarrow> n | None \<Rightarrow> []),
                           sr_content = chunk_content chunk,
                           sr_startLine = chunk_startLine chunk,
                           sr_endLine = chunk_endLine chunk,
                           sr_score = score\<rparr>)
              rrfResults))"

text \<open>
  The part of \<open>hybridSearch\<close> after the two searches: fusion, truncation, resolution of
  the lexical string ids to chunk ids, hydration.
\<close>

definition fuse_and_hydrate ::
  "Database \<Rightarrow> BM25Result list \<Rightarrow> VectorResult list \<Rightarrow> int \<Rightarrow> nat \<Rightarrow> SearchResult list" where
  "fuse_and_hydrate db bm25Results vectorResults fusionLimit' rrfK' =
     (let bm25Formatted = map (\<lambda>r. \<lparr>item_id = StrId (bm_id r), item_score = None\<rparr>) bm25Results;
          vectorFormatted = map (\<lambda>r. \<lparr>item_id = NumId (vec_id r), item_score = None\<rparr>) vectorResults;
          fusedResults = reciprocalRankFusion [bm25Formatted, vectorFormatted] \<lparr>opt_k = Some rrfK'\<rparr>;
          topFused = slice0 fusedResults fusionLimit';
          bm25Ids = set (map bm_id bm25Results);
          bm25FusedIds =
            List.map_filter
              (\<lambda>result. case res_id result of
                           StrId s \<Rightarrow> if s \<in> bm25Ids then Some s else None
                         | NumId n \<Rightarrow> None)
              topFused;
          bm25IdMap =
            (if length bm25FusedIds > 0 then
               (let bm25ChunkMap =
                      foldl (\<lambda>m r. AList.update (bm_id r) (bm_filePath r, bm_startLine r) m)
                        [] bm25Results
                in foldl
                     (\<lambda>m (stringId, info).
                        case select_id_by_file_line db (fst info) (snd info) of
                          Some rowId \<Rightarrow> AList.update stringId rowId m
                        | None \<Rightarrow> m)
                     [] bm25ChunkMap)
             else []);
          numericFusedResults =
            List.map_filter
              (\<lambda>r. case res_id r of
                      StrId s \<Rightarrow>
                        (case map_of bm25IdMap s of
                           None \<Rightarrow> None
                         | Some numericId \<Rightarrow>
                             if numericId = 0 then None else Some (numericId, res_score r))
                    | NumId n \<Rightarrow> Some (n, res_score r))
              topFused
      in mergeResults db numericFusedResults)"

definition hybridSearch ::
  "jsstring \<Rightarrow> Database \<Rightarrow> OramaDB \<Rightarrow> VectorIndex \<Rightarrow> EmbeddingModel \<Rightarrow> SearchOptions
     \<Rightarrow> search_event list \<times> (error + SearchResult list)" where
  "hybridSearch query db bm25Index vectorIndex embedder options =
     (if query = [] \<or> trim query = [] then ([], Inr [])
      else
        (let bm25Limit' = (case bm25Limit options of Some n \<Rightarrow> n | None \<Rightarrow> 200);
             vectorLimit' = (case vectorLimit options of Some n \<Rightarrow> n | None \<Rightarrow> 100);
             fusionLimit' = (case fusionLimit options of Some n \<Rightarrow> n | None \<Rightarrow> 30);
             rrfK' = (case rrfK options of Some n \<Rightarrow> n | None \<Rightarrow> 60);
             calls = [CallSearchBM25 query bm25Limit', CallEmbedText query]
         in case searchBM25 bm25Index query bm25Limit' of
              Inl e \<Rightarrow> (calls, Inl e)
            | Inr bm25Results \<Rightarrow>
                (case embedText embedder query of
                   Inl e \<Rightarrow> (calls, Inl e)
                 | Inr queryEmbedding \<Rightarrow>
                     (case searchVector vectorIndex queryEmbedding vectorLimit' of
                        Inl e \<Rightarrow> (calls @ [CallSearchVector queryEmbedding vectorLimit'], Inl e)
                      | Inr vectorResults \<Rightarrow>
                          (calls @ [CallSearchVector queryEmbedding vectorLimit'],
                           Inr (fuse_and_hydrate db bm25Results vectorResults
                                  fusionLimit' rrfK'))))))"


section \<open>Lexical index persistence (\<open>search/bm25/persistence.ts\<close>)\<close>







section \<open>Cache keys (\<open>generation/cache-key.ts\<close>)\<close>

record CacheKeyInput =
  ck_query :: jsstring
  ck_chunkIds :: "jsstring list"
  ck_provider :: jsstring
  ck_model :: jsstring
  ck_maxTokens :: "int option"

record NormalizedKey =
  nk_query :: jsstring
  nk_chunkIds :: "jsstring list"
  nk_provider :: jsstring
  nk_model :: jsstring
  nk_maxTokens :: int

text \<open>
  Three library functions are parameters: \<open>String.prototype.toLowerCase\<close>, the stable
  JSON serializer applied to the normalized object, and SHA-256 of the UTF-8 encoding of
  a string, whose digest is a 256-bit value.
\<close>

record KeyLibrary =
  toLowerCase :: "jsstring \<Rightarrow> jsstring"
  stringify :: "NormalizedKey \<Rightarrow> jsstring"
  sha256 :: "jsstring \<Rightarrow> 256 word"

text \<open>\<open>digest('hex')\<close>: the 64 nibbles of the digest, most significant first, in lowercase.\<close>

definition hex_digits :: jsstring where
  "hex_digits = js ''0123456789abcdef''"

definition is_hex_char :: "16 word \<Rightarrow> bool" where
  "is_hex_char c \<longleftrightarrow> c \<in> set hex_digits"

definition digest_hex :: "256 word \<Rightarrow> jsstring" where
  "digest_hex d = map (\<lambda>i. hex_digits ! (unat (drop_bit (4 * (63 - i)) d) mod 16)) [0..<64]"

text \<open>\<open>input.maxTokens || 4096\<close>: \<open>undefined\<close> and 0 are both falsy.\<close>

definition maxTokens_or_default :: "int option \<Rightarrow> int" where
  "maxTokens_or_default m = (case m of None \<Rightarrow> 4096 | Some n \<Rightarrow> if n = 0 then 4096 else n)"

text \<open>
  \<open>[...input.chunkIds].sort()\<close> orders strings by their code units, a shorter prefix
  first: the lexicographic order on lists of words.
\<close>

definition generateCacheKey :: "KeyLibrary \<Rightarrow> CacheKeyInput \<Rightarrow> jsstring" where
  "generateCacheKey lib input =
     (let normalized =
            \<lparr>nk_query = toLowerCase lib (trim (ck_query input)),
             nk_chunkIds = sort (ck_chunkIds input),
             nk_provider = ck_provider input,
             nk_model = ck_model input,
             nk_maxTokens = maxTokens_or_default (ck_maxTokens input)\<rparr>;
          json = stringify lib normalized
      in digest_hex (sha256 lib json))"

text \<open>A library instance and two inputs on which the key can be computed.\<close>

definition ascii_toLowerCase :: "jsstring \<Rightarrow> jsstring" where
  "ascii_toLowerCase s = map (\<lambda>c. if 0x41 \<le> c \<and> c \<le> 0x5A then c + 0x20 else c) s"

definition sample_library :: KeyLibrary where
  "sample_library =
     \<lparr>toLowerCase = ascii_toLowerCase,
      stringify = (\<lambda>n. nk_query n @ concat (nk_chunkIds n) @ nk_provider n @ nk_model n),
      sha256 = (\<lambda>s. of_nat (length s))\<rparr>"

definition sample_input_1 :: CacheKeyInput where
  "sample_input_1 =
     \<lparr>ck_query = js ''  How does Auth work? '',
      ck_chunkIds = [js ''b.ts:20'', js ''a.ts:1''],
      ck_provider = js ''Anthropic'',
      ck_model = js ''m'',
      ck_maxTokens = None\<rparr>"

definition sample_input_2 :: CacheKeyInput where
  "sample_input_2 =
     \<lparr>ck_query = js ''how does auth work?'',
      ck_chunkIds = [js ''a.ts:1'', js ''b.ts:20''],
      ck_provider = js ''Anthropic'',
      ck_model = js ''m'',
      ck_maxTokens = Some 4096\<rparr>"


section \<open>Repository walker (\<open>indexing/loader.ts\<close>)\<close>

text \<open>
  A property of a \<open>Partial<FileFilterConfig>\<close> object is absent, present with the value
  \<open>undefined\<close>, or present with a value. The spread \<open>{...DEFAULT_CONFIG, ...config}\<close> copies
  every property that is present, also one whose value is \<open>undefined\<close>.
\<close>

datatype 'a partial_prop = Absent | Undefined | Given 'a

record PartialFileFilterConfig =
  p_maxFileSizeBytes :: "int partial_prop"
  p_generatedDirs :: "jsstring list partial_prop"

text \<open>The merged configuration; \<open>None\<close> is the value \<open>undefined\<close>.\<close>

record FileFilterConfig =
  maxFileSizeBytes :: "int option"
  generatedDirs :: "jsstring list option"

definition DEFAULT_CONFIG :: FileFilterConfig where
  "DEFAULT_CONFIG =
     \<lparr>maxFileSizeBytes = Some (500 * 1024),
      generatedDirs = Some [js ''node_modules/'', js ''dist/'', js ''build/'']\<rparr>"

definition spread_prop :: "'a option \<Rightarrow> 'a partial_prop \<Rightarrow> 'a option" where
  "spread_prop base p = (case p of Absent \<Rightarrow> base | Undefined \<Rightarrow> None | Given v \<Rightarrow> Some v)"

definition merge_config :: "PartialFileFilterConfig option \<Rightarrow> FileFilterConfig" where
  "merge_config config =
     (case config of
        None \<Rightarrow> DEFAULT_CONFIG
      | Some c \<Rightarrow>
          \<lparr>maxFileSizeBytes = spread_prop (maxFileSizeBytes DEFAULT_CONFIG) (p_maxFileSizeBytes c),
           generatedDirs = spread_prop (generatedDirs DEFAULT_CONFIG) (p_generatedDirs c)\<rparr>)"

text \<open>
  The directory tree under the repository root. \<open>readdir\<close> of a directory lists its
  entries or throws; an entry is a regular file, a directory, or something else
  (a symbolic link, a socket).
\<close>

datatype fs_node =
    FileNode
  | DirNode "(jsstring \<times> fs_node) list"
  | UnreadableDir bool
  | OtherNode

text \<open>
  The rest of the outside world: \<open>stat\<close> and the binary detector, each of which may throw,
  and the ignore filter, which \<open>createIgnoreFilter\<close> builds or fails to build. The filter
  is given by \<open>shouldIgnorePath\<close> as a function of the full path.
\<close>

record WalkWorld =
  fs_root :: "fs_node option"
  stat_size :: "jsstring \<Rightarrow> error + int"
  isBinaryFile :: "jsstring \<Rightarrow> error + bool"
  createIgnoreFilter :: "error + (jsstring \<Rightarrow> bool)"

datatype walk_event =
    WarnIgnoreFilterFailed
  | WarnPermissionDenied jsstring
  | WarnReaddirFailed jsstring
  | WarnLargeFile int jsstring
  | WarnFileCheckFailed jsstring
  | LogDiscovered nat

text \<open>\<open>join(currentPath, entry.name)\<close> on paths already in normal form.\<close>

definition join_path :: "jsstring \<Rightarrow> jsstring \<Rightarrow> jsstring" where
  "join_path dir name = dir @ js ''/'' @ name"

text \<open>
  \<open>traverse\<close>: depth first, in \<open>readdir\<close> order; ignored entries are skipped before their
  type is looked at; a directory that cannot be read leaves a warning. \<open>UnreadableDir True\<close>
  is a permission error (\<open>EACCES\<close>, \<open>EPERM\<close>).
\<close>

fun isDirectory :: "fs_node \<Rightarrow> bool" where
  "isDirectory (DirNode entries) = True"
| "isDirectory (UnreadableDir denied) = True"
| "isDirectory FileNode = False"
| "isDirectory OtherNode = False"

fun isFile :: "fs_node \<Rightarrow> bool" where
  "isFile FileNode = True"
| "isFile (DirNode entries) = False"
| "isFile (UnreadableDir denied) = False"
| "isFile OtherNode = False"

fun traverse :: "(jsstring \<Rightarrow> bool) \<Rightarrow> jsstring \<Rightarrow> fs_node \<Rightarrow> walk_event list \<times> jsstring list"
  and traverse_entries ::
    "(jsstring \<Rightarrow> bool) \<Rightarrow> jsstring \<Rightarrow> (jsstring \<times> fs_node) list \<Rightarrow> walk_event list \<times> jsstring list"
where
  "traverse ignored currentPath (DirNode entries) = traverse_entries ignored currentPath entries"
| "traverse ignored currentPath (UnreadableDir denied) =
     ([if denied then WarnPermissionDenied currentPath else WarnReaddirFailed currentPath], [])"
| "traverse ignored currentPath FileNode = ([WarnReaddirFailed currentPath], [])"
| "traverse ignored currentPath OtherNode = ([WarnReaddirFailed currentPath], [])"
| "traverse_entries ignored currentPath [] = ([], [])"
| "traverse_entries ignored currentPath ((name, node) # rest) =
     (let fullPath = join_path currentPath name;
          here =
            (if ignored fullPath then ([], [])
             else if isDirectory node then traverse ignored fullPath node
             else if isFile node then ([], [fullPath])
             else ([], []));
          there = traverse_entries ignored currentPath rest
      in (fst here @ fst there, snd here @ snd there))"

text \<open>
  Stage 4, the loop over \<open>candidateFiles\<close>. \<open>fileStat.size > fullConfig.maxFileSizeBytes\<close>
  is false when the limit is \<open>undefined\<close>.
\<close>

definition exceeds_limit :: "int \<Rightarrow> int option \<Rightarrow> bool" where
  "exceeds_limit fileSize limit = (case limit of None \<Rightarrow> False | Some m \<Rightarrow> fileSize > m)"

fun filter_candidates ::
  "WalkWorld \<Rightarrow> FileFilterConfig \<Rightarrow> jsstring list \<Rightarrow> walk_event list \<times> jsstring list" where
  "filter_candidates w fullConfig [] = ([], [])"
| "filter_candidates w fullConfig (filePath # rest) =
     (let (events, filteredFiles) = filter_candidates w fullConfig rest in
      case stat_size w filePath of
        Inl e \<Rightarrow> (WarnFileCheckFailed filePath # events, filteredFiles)
      | Inr fileSize \<Rightarrow>
          if exceeds_limit fileSize (maxFileSizeBytes fullConfig) then
            (WarnLargeFile fileSize filePath # events, filteredFiles)
          else
            (case isBinaryFile w filePath of
               Inl e \<Rightarrow> (WarnFileCheckFailed filePath # events, filteredFiles)
             | Inr isBinary \<Rightarrow>
                 if isBinary then (events, filteredFiles)
                 else (events, filePath # filteredFiles)))"

text \<open>
  Stage 2: when \<open>createIgnoreFilter\<close> throws, a warning is printed and an empty filter,
  which ignores nothing, takes its place.
\<close>

definition ignore_filter :: "WalkWorld \<Rightarrow> walk_event list \<times> (jsstring \<Rightarrow> bool)" where
  "ignore_filter w =
     (case createIgnoreFilter w of
        Inl e \<Rightarrow> ([WarnIgnoreFilterFailed], (\<lambda>p. False))
      | Inr f \<Rightarrow> ([], f))"

definition discoverFiles ::
  "WalkWorld \<Rightarrow> jsstring \<Rightarrow> PartialFileFilterConfig option
     \<Rightarrow> walk_event list \<times> (error + jsstring list)" where
  "discoverFiles w repoPath config =
     (let fullConfig = merge_config config in
      case fs_root w of
        None \<Rightarrow> ([], Inl (RepoPathMissing repoPath))
      | Some node \<Rightarrow>
          if \<not> isDirectory node then ([], Inl (RepoPathNotDirectory repoPath))
          else
            (let ignoreFilter = ignore_filter w;
                 walked = traverse (snd ignoreFilter) repoPath node;
                 candidates = snd walked;
                 checked = filter_candidates w fullConfig candidates;
                 sortedFiles = sort (snd checked)
             in (fst ignoreFilter @ fst walked @ fst checked @ [LogDiscovered (length sortedFiles)],
                 Inr sortedFiles)))"


text \<open>
  A repository with one binary file of exactly 500 KB and one text file one byte larger.
\<close>

definition sample_world :: WalkWorld where
  "sample_world =
     \<lparr>fs_root = Some (DirNode [(js ''logo.png'', FileNode), (js ''big.ts'', FileNode),
                            (js ''ok.ts'', FileNode)]),
      stat_size = (\<lambda>p. if p = js ''/r/logo.png'' then Inr 512000
                        else if p = js ''/r/big.ts'' then Inr 512001
                        else Inr 512000),
      isBinaryFile = (\<lambda>p. Inr (p = js ''/r/logo.png'')),
      createIgnoreFilter = Inr (\<lambda>p. False)\<rparr>"



section \<open>Chunker (\<open>indexing/chunker.ts\<close>)\<close>

text \<open>
  The parser and its compiled query are library objects: \<open>pc_parse\<close> gives, for a file
  content, whether the root node reports errors and the matches of the query, or throws.
\<close>

datatype symbol_type = SymFunction | SymClass | SymMethod | SymUnknown

record SyntaxNode =
  node_text :: jsstring
  node_startRow :: int
  node_endRow :: int

record QueryCapture =
  capture_name :: jsstring
  capture_node :: SyntaxNode

type_synonym QueryMatch = "QueryCapture list"

record ParserCache =
  pc_language :: jsstring
  pc_parse :: "jsstring \<Rightarrow> error + (bool \<times> QueryMatch list)"

record CodeChunk =
  cc_content :: jsstring
  cc_contentHash :: jsstring
  cc_symbolName :: "jsstring option"
  cc_symbolType :: symbol_type
  cc_startLine :: int
  cc_endLine :: int
  cc_language :: jsstring
  cc_filePath :: jsstring

datatype index_warning =
    WarnGitDiffFailed
  | WarnCannotAccess jsstring
  | WarnProcessFailed jsstring
  | WarnParseErrors jsstring
  | WarnParseFailed jsstring

definition determineSymbolType :: "jsstring \<Rightarrow> symbol_type" where
  "determineSymbolType captureName =
     (if captureName = js ''function'' then SymFunction
      else if captureName = js ''class'' then SymClass
      else if captureName = js ''method'' then SymMethod
      else SymUnknown)"

definition extractSymbolName :: "QueryCapture list \<Rightarrow> jsstring option" where
  "extractSymbolName captures =
     (case find (\<lambda>c. capture_name c \<in> set [js ''func_name'', js ''class_name'', js ''method_name''])
             captures of
        Some nameCapture \<Rightarrow> Some (node_text (capture_node nameCapture))
      | None \<Rightarrow> None)"

definition chunk_of_match ::
  "(jsstring \<Rightarrow> jsstring) \<Rightarrow> jsstring \<Rightarrow> ParserCache \<Rightarrow> QueryMatch \<Rightarrow> CodeChunk option" where
  "chunk_of_match hashContent filePath parserCache captures =
     (case find (\<lambda>c. capture_name c \<in> set [js ''function'', js ''class'', js ''method'']) captures of
        None \<Rightarrow> None
      | Some mainCapture \<Rightarrow>
          (let node = capture_node mainCapture;
               chunkContent = node_text node
           in Some \<lparr>cc_content = chunkContent,
                    cc_contentHash = hashContent chunkContent,
                    cc_symbolName = extractSymbolName captures,
                    cc_symbolType = determineSymbolType (capture_name mainCapture),
                    cc_startLine = node_startRow node + 1,
                    cc_endLine = node_endRow node + 1,
                    cc_language = pc_language parserCache,
                    cc_filePath = filePath\<rparr>))"

definition chunkCodeFile ::
  "(jsstring \<Rightarrow> jsstring) \<Rightarrow> jsstring \<Rightarrow> jsstring \<Rightarrow> ParserCache
     \<Rightarrow> index_warning list \<times> CodeChunk list" where
  "chunkCodeFile hashContent filePath fileContent parserCache =
     (case pc_parse parserCache fileContent of
        Inl e \<Rightarrow> ([WarnParseFailed filePath], [])
      | Inr (hasError, matches) \<Rightarrow>
          ((if hasError then [WarnParseErrors filePath] else []),
           List.map_filter (chunk_of_match hashContent filePath parserCache) matches))"

section \<open>Chunk store writes (\<open>persistence/repository.ts\<close>)\<close>

datatype db_op =
    OpDeleteAllChunks
  | OpDeleteChunksByFile jsstring
  | OpInsertChunksBatch "ChunkRow list"

text \<open>\<open>DELETE FROM chunks WHERE file_path = ?\<close>\<close>

definition deleteChunksByFile :: "Database \<Rightarrow> jsstring \<Rightarrow> Database" where
  "deleteChunksByFile db path =
     db\<lparr>chunk_rows := filter (\<lambda>row. chunk_filePath row \<noteq> path) (chunk_rows db)\<rparr>"

text \<open>One transaction of inserts; the store numbers the new rows after the last id it gave.\<close>

definition insertChunksBatch :: "Database \<Rightarrow> ChunkRow list \<Rightarrow> Database" where
  "insertChunksBatch db chunks =
     (if length chunks = 0 then db
      else
        db\<lparr>chunk_rows :=
             chunk_rows db
             @ map (\<lambda>(i, chunk). chunk\<lparr>chunk_id := Some (last_id db + 1 + int i)\<rparr>)
                 (enumerate 0 chunks),
           last_id := last_id db + int (length chunks)\<rparr>)"

section \<open>Incremental update (\<open>indexing/indexer.ts\<close>)\<close>

record IndexOptions =
  opt_repoPath :: jsstring
  opt_dbPath :: "jsstring option"
  opt_incremental :: "bool option"
  opt_maxFileSizeBytes :: "int option"

record IndexStats =
  filesDiscovered :: nat
  filesProcessed :: nat
  filesFailed :: nat
  chunksCreated :: nat
  durationMs :: int

text \<open>
  What a run leaves behind: the chunk store, the writes made to it in order, the
  warnings printed, and the statistics returned or the error thrown.
\<close>

record IndexOutcome =
  out_db :: Database
  out_ops :: "db_op list"
  out_warnings :: "index_warning list"
  out_result :: "error + IndexStats"

text \<open>
  The outside world of a run: whether opening the store and running the migrations
  throws, what \<open>git diff HEAD\<close> reports, the parsers that \<open>initParser\<close> loads by language,
  the files, the hash function, the two readings of the clock, and the full index run
  to which a failed diff falls back (its own steps are not part of this model).
\<close>

record IndexWorld =
  initDatabase_error :: "error option"
  git_diffSummary :: "error + jsstring list"
  initParser :: "jsstring \<Rightarrow> error + ParserCache"
  readFile :: "jsstring \<Rightarrow> error + jsstring"
  hashContent :: "jsstring \<Rightarrow> jsstring"
  now_start :: int
  now_end :: int
  indexRepository :: "IndexOptions \<Rightarrow> Database \<Rightarrow> IndexOutcome"

definition initial_stats :: IndexStats where
  "initial_stats =
     \<lparr>filesDiscovered = 0, filesProcessed = 0, filesFailed = 0, chunksCreated = 0, durationMs = 0\<rparr>"

text \<open>Stage 3: the three parsers, and \<open>parserMap\<close> from extension to parser.\<close>

definition init_parsers :: "IndexWorld \<Rightarrow> error + (jsstring \<times> ParserCache) list" where
  "init_parsers w =
     (case initParser w (js ''typescript'') of
        Inl e \<Rightarrow> Inl e
      | Inr tsParser \<Rightarrow>
          (case initParser w (js ''javascript'') of
             Inl e \<Rightarrow> Inl e
           | Inr jsParser \<Rightarrow>
               (case initParser w (js ''python'') of
                  Inl e \<Rightarrow> Inl e
                | Inr pyParser \<Rightarrow>
                    Inr ([(js ''.ts'', tsParser), (js ''.tsx'', tsParser),
                          (js ''.js'', jsParser), (js ''.jsx'', jsParser),
                          (js ''.mjs'', jsParser), (js ''.cjs'', jsParser),
                          (js ''.py'', pyParser)]))))"

text \<open>\<open>`${options.repoPath}/${relPath}`.replace(/\\/g, '/')\<close>\<close>

definition absolute_path :: "jsstring \<Rightarrow> jsstring \<Rightarrow> jsstring" where
  "absolute_path repo relPath = normalize_slashes (repo @ js ''/'' @ relPath)"

text \<open>
  Stage 4, the loop over \<open>changedFilePaths\<close>: a file that cannot be read is warned about
  and skipped; a file that can be read is pushed when it needs re-indexing.
\<close>

definition needsReindex :: "ChunkRow list \<Rightarrow> jsstring \<Rightarrow> bool" where
  "needsReindex existingChunks currentHash \<longleftrightarrow>
     length existingChunks = 0
     \<or> list_ex (\<lambda>chunk. chunk_contentHash chunk \<noteq> currentHash) existingChunks"

fun select_files_to_reindex ::
  "IndexWorld \<Rightarrow> Database \<Rightarrow> jsstring \<Rightarrow> jsstring list \<Rightarrow> index_warning list \<times> jsstring list" where
  "select_files_to_reindex w db repo [] = ([], [])"
| "select_files_to_reindex w db repo (relPath # rest) =
     (let absolutePath = absolute_path repo relPath;
          (warnings, filesToReindex) = select_files_to_reindex w db repo rest
      in case readFile w absolutePath of
           Inl e \<Rightarrow> (WarnCannotAccess relPath # warnings, filesToReindex)
         | Inr fileContent \<Rightarrow>
             (let currentHash = hashContent w fileContent;
                  existingChunks = getChunksByFile db absolutePath
              in if needsReindex existingChunks currentHash
                 then (warnings, absolutePath # filesToReindex)
                 else (warnings, filesToReindex)))"

text \<open>
  \<open>filePath.substring(filePath.lastIndexOf('.'))\<close>: from the last dot on, or the whole
  path when there is no dot (\<open>substring(-1)\<close> starts at 0).
\<close>

definition file_extension :: "jsstring \<Rightarrow> jsstring" where
  "file_extension filePath =
     (if 0x2E \<in> set filePath then 0x2E # rev (takeWhile (\<lambda>c. c \<noteq> 0x2E) (rev filePath))
      else filePath)"

definition to_row :: "CodeChunk \<Rightarrow> ChunkRow" where
  "to_row chunk =
     \<lparr>chunk_id = None,
      chunk_filePath = cc_filePath chunk,
      chunk_symbolName = cc_symbolName chunk,
      chunk_symbolType =
        (case cc_symbolType chunk of
           SymFunction \<Rightarrow> js ''function'' | SymClass \<Rightarrow> js ''class''
         | SymMethod \<Rightarrow> js ''method'' | SymUnknown \<Rightarrow> js ''unknown''),
      chunk_content = cc_content chunk,
      chunk_contentHash = cc_contentHash chunk,
      chunk_startLine = cc_startLine chunk,
      chunk_endLine = cc_endLine chunk,
      chunk_language = cc_language chunk\<rparr>"

text \<open>Stage 6, the loop over \<open>filesToReindex\<close>, carrying \<open>allChunks\<close>, \<open>stats\<close> and the warnings.\<close>

fun process_files ::
  "IndexWorld \<Rightarrow> (jsstring \<times> ParserCache) list \<Rightarrow> jsstring list
     \<Rightarrow> ChunkRow list \<times> IndexStats \<times> index_warning list
     \<Rightarrow> ChunkRow list \<times> IndexStats \<times> index_warning list" where
  "process_files w parserMap [] state = state"
| "process_files w parserMap (filePath # rest) (allChunks, stats, warnings) =
     process_files w parserMap rest
       (case map_of parserMap (file_extension filePath) of
          None \<Rightarrow> (allChunks, stats\<lparr>filesProcessed := filesProcessed stats + 1\<rparr>, warnings)
        | Some parserCache \<Rightarrow>
            (case readFile w filePath of
               Inl e \<Rightarrow>
                 (allChunks, stats\<lparr>filesFailed := filesFailed stats + 1\<rparr>,
                  warnings @ [WarnProcessFailed filePath])
             | Inr fileContent \<Rightarrow>
                 (case chunkCodeFile (hashContent w) filePath fileContent parserCache of
                    (chunkWarnings, chunks) \<Rightarrow>
                      (allChunks @ map to_row chunks,
                       stats\<lparr>filesProcessed := filesProcessed stats + 1\<rparr>,
                       warnings @ chunkWarnings))))"

definition updateRepository :: "IndexWorld \<Rightarrow> IndexOptions \<Rightarrow> Database \<Rightarrow> IndexOutcome" where
  "updateRepository w options db =
     (let stats = initial_stats in
      case initDatabase_error w of
        Some e \<Rightarrow> \<lparr>out_db = db, out_ops = [], out_warnings = [], out_result = Inl e\<rparr>
      | None \<Rightarrow>
          (case git_diffSummary w of
             Inl e \<Rightarrow>
               (let fallback = indexRepository w (options\<lparr>opt_incremental := Some False\<rparr>) db
                in fallback\<lparr>out_warnings := WarnGitDiffFailed # out_warnings fallback\<rparr>)
           | Inr changedFilePaths \<Rightarrow>
               if length changedFilePaths = 0 then
                 \<lparr>out_db = db, out_ops = [], out_warnings = [],
                  out_result = Inr (stats\<lparr>durationMs := now_end w - now_start w\<rparr>)\<rparr>
               else
                 (case init_parsers w of
                    Inl e \<Rightarrow> \<lparr>out_db = db, out_ops = [], out_warnings = [], out_result = Inl e\<rparr>
                  | Inr parserMap \<Rightarrow>
                      (let (warnings4, filesToReindex) =
                             select_files_to_reindex w db (opt_repoPath options) changedFilePaths;
                           stats4 = stats\<lparr>filesDiscovered := length filesToReindex\<rparr>
                       in if length filesToReindex = 0 then
                            \<lparr>out_db = db, out_ops = [], out_warnings = warnings4,
                             out_result = Inr (stats4\<lparr>durationMs := now_end w - now_start w\<rparr>)\<rparr>
                          else
                            (let db5 = foldl deleteChunksByFile db filesToReindex;
                                 ops5 = map OpDeleteChunksByFile filesToReindex;
                                 (allChunks, stats6, warnings6) =
                                   process_files w parserMap filesToReindex ([], stats4, warnings4)
                             in if length allChunks > 0 then
                                  \<lparr>out_db = insertChunksBatch db5 allChunks,
                                   out_ops = ops5 @ [OpInsertChunksBatch allChunks],
                                   out_warnings = warnings6,
                                   out_result =
                                     Inr (stats6\<lparr>chunksCreated := length allChunks,
                                                durationMs := now_end w - now_start w\<rparr>)\<rparr>
                                else
                                  \<lparr>out_db = db5, out_ops = ops5, out_warnings = warnings6,
                                   out_result =
                                     Inr (stats6\<lparr>durationMs := now_end w - now_start w\<rparr>)\<rparr>)))))"

text \<open>
  A run to compute with: the working tree is \<open>/r\<close>; the diff reports \<open>a.ts\<close>, which can
  be read, and \<open>gone.ts\<close>, which was deleted; the store holds no chunks.
\<close>

definition sample_parser :: "jsstring \<Rightarrow> error + ParserCache" where
  "sample_parser lang = Inr \<lparr>pc_language = lang, pc_parse = (\<lambda>c. Inr (False, []))\<rparr>"

definition no_full_index :: "IndexOptions \<Rightarrow> Database \<Rightarrow> IndexOutcome" where
  "no_full_index options db =
     \<lparr>out_db = db, out_ops = [], out_warnings = [], out_result = Inr initial_stats\<rparr>"

definition sample_index_world :: IndexWorld where
  "sample_index_world =
     \<lparr>initDatabase_error = None,
      git_diffSummary = Inr [js ''a.ts'', js ''gone.ts''],
      initParser = sample_parser,
      readFile = (\<lambda>p. if p = js ''/r/a.ts'' then Inr (js ''x'') else Inl (ExternalError 2)),
      hashContent = (\<lambda>s. s),
      now_start = 100,
      now_end = 130,
      indexRepository = no_full_index\<rparr>"

definition quiet_index_world :: IndexWorld where
  "quiet_index_world = sample_index_world\<lparr>git_diffSummary := Inr []\<rparr>"

definition sample_options :: IndexOptions where
  "sample_options =
     \<lparr>opt_repoPath = js ''/r'', opt_dbPath = None, opt_incremental = Some True,
      opt_maxFileSizeBytes = None\<rparr>"

definition empty_store :: Database where
  "empty_store = \<lparr>chunk_rows = [], last_id = 0\<rparr>"



section \<open>Auxiliary notions for the fusion proofs\<close>



definition to_result :: "item_id \<times> rat \<Rightarrow> RRFResult" where
  "to_result = (\<lambda>(i, s). \<lparr>res_id = i, res_score = s\<rparr>)"


fun rank_scores :: "nat \<Rightarrow> nat \<Rightarrow> ranked_item list \<Rightarrow> score_map" where
  "rank_scores k rank [] = []"
| "rank_scores k rank (x # xs) =
     (item_id x, 1 / (of_nat rank + 1 + of_nat k)) # rank_scores k (Suc rank) xs"

section \<open>Properties of the fusion stage\<close>

subsection \<open>What the accumulation loops compute\<close>













lemma rrf_unfold:
  "reciprocalRankFusion ls opts =
     sort_key (\<lambda>r. - res_score r)
       (map to_result (accumulate_lists (case opt_k opts of Some k' \<Rightarrow> k' | None \<Rightarrow> 60) ls []))"
  by (simp add: reciprocalRankFusion_def sort_by_score_desc_def to_result_def)

lemma res_id_to_result: "map res_id (map to_result scores) = map fst scores"
  by (induction scores) (auto simp: to_result_def)







lemma update_fresh: "j \<notin> fst ` set scores \<Longrightarrow> AList.update j v scores = scores @ [(j, v)]"
  by (induction scores) auto

lemma accumulate_list_fresh:
  "distinct (map item_id xs) \<Longrightarrow> item_id ` set xs \<inter> fst ` set scores = {} \<Longrightarrow>
   accumulate_list k rank xs scores = scores @ rank_scores k rank xs"
proof (induction xs arbitrary: rank scores)
  case Nil
  show ?case by simp
next
  case (Cons x xs)
  have fresh: "item_id x \<notin> fst ` set scores"
    using Cons.prems(2) by auto
  then have none: "map_of scores (item_id x) = None"
    by (simp add: map_of_eq_None_iff)
  let ?sc = "scores @ [(item_id x, 1 / (of_nat rank + 1 + of_nat k))]"
  have "item_id ` set xs \<inter> fst ` set ?sc = {}"
    using Cons.prems by auto
  moreover have "distinct (map item_id xs)"
    using Cons.prems(1) by simp
  ultimately have "accumulate_list k (Suc rank) xs ?sc = ?sc @ rank_scores k (Suc rank) xs"
    by (rule Cons.IH [rotated])
  then show ?case
    by (simp add: Let_def scores_get_def scores_set_def none update_fresh [OF fresh])
qed

lemma rank_scores_ids: "map fst (rank_scores k rank xs) = map item_id xs"
  by (induction xs arbitrary: rank) simp_all

lemma rank_scores_bound:
  "p \<in> set (rank_scores k rank xs) \<Longrightarrow> snd p \<le> 1 / (of_nat rank + 1 + of_nat k)"
proof (induction xs arbitrary: rank)
  case Nil
  then show ?case by simp
next
  case (Cons x xs)
  show ?case
  proof (cases "p \<in> set (rank_scores k (Suc rank) xs)")
    case True
    then have "snd p \<le> 1 / (of_nat (Suc rank) + 1 + of_nat k)"
      by (rule Cons.IH)
    also have "\<dots> \<le> 1 / (of_nat rank + 1 + (of_nat k :: rat))"
      by (simp add: frac_le)
    finally show ?thesis .
  next
    case False
    with Cons.prems show ?thesis by auto
  qed
qed

lemma rank_scores_sorted:
  "sorted (map (\<lambda>r. - res_score r) (map to_result (rank_scores k rank xs)))"
proof (induction xs arbitrary: rank)
  case Nil
  show ?case by simp
next
  case (Cons x xs)
  have "\<forall>p \<in> set (rank_scores k (Suc rank) xs). snd p \<le> 1 / (of_nat rank + 1 + of_nat k)"
  proof
    fix p assume "p \<in> set (rank_scores k (Suc rank) xs)"
    then have "p \<in> set (rank_scores k rank (x # xs))" by simp
    then show "snd p \<le> 1 / (of_nat rank + 1 + of_nat k)" by (rule rank_scores_bound)
  qed
  then show ?case
    using Cons.IH [of "Suc rank"] by (auto simp: to_result_def)
qed

lemma rrf_single_distinct:
  assumes "distinct (map item_id L)"
  shows "map res_id (reciprocalRankFusion [L] opts) = map item_id L"
proof -
  let ?k = "case opt_k opts of Some k' \<Rightarrow> k' | None \<Rightarrow> 60"
  have acc: "accumulate_lists ?k [L] [] = rank_scores ?k 0 L"
    using accumulate_list_fresh [OF assms, of "[]" ?k 0] by simp
  have "sort_key (\<lambda>r. - res_score r) (map to_result (rank_scores ?k 0 L))
          = map to_result (rank_scores ?k 0 L)"
    using rank_scores_sorted by (rule sort_key_id_if_sorted)
  then show ?thesis
    by (simp only: rrf_unfold acc res_id_to_result rank_scores_ids)
qed

subsection \<open>The claims about fusion\<close>

text \<open>
  C1: fusing \<open>L1 = [A, B, C]\<close> and \<open>L2 = [B, C, D]\<close> with \<open>k = 60\<close> returns the ids in
  the order \<open>[B, C, A, D]\<close>, with score \<open>1/61 + 1/62\<close> for B, \<open>1/62 + 1/63\<close> for C,
  \<open>1/61\<close> for A and \<open>1/63\<close> for D.
\<close>

theorem rrf_scenario_S5:
  "reciprocalRankFusion
     [[item id_A, item id_B, item id_C], [item id_B, item id_C, item id_D]]
     \<lparr>opt_k = Some 60\<rparr>
   = [\<lparr>res_id = id_B, res_score = 1 / 61 + 1 / 62\<rparr>,
      \<lparr>res_id = id_C, res_score = 1 / 62 + 1 / 63\<rparr>,
      \<lparr>res_id = id_A, res_score = 1 / 61\<rparr>,
      \<lparr>res_id = id_D, res_score = 1 / 63\<rparr>]"
  by (simp add: reciprocalRankFusion_def sort_by_score_desc_def scores_get_def scores_set_def
        item_def js_def id_A_def id_B_def id_C_def id_D_def)

text \<open>
  C2, as amended: for every ranked list \<open>L\<close> whose ids are pairwise distinct and every
  \<open>k \<ge> 1\<close>, fusing the single list \<open>L\<close> returns the ids of \<open>L\<close> in the order of \<open>L\<close>.
\<close>

theorem rrf_single_list_preserves_order:
  assumes "distinct (map item_id L)" and "1 \<le> k"
  shows "map res_id (reciprocalRankFusion [L] \<lparr>opt_k = Some k\<rparr>) = map item_id L"
  using assms(1) by (rule rrf_single_distinct)

theorem rrf_single_list_preserves_order_witness:
  "distinct (map item_id [item id_A, item id_B, item id_C]) \<and> (1::nat) \<le> 60
   \<and> map res_id (reciprocalRankFusion [[item id_A, item id_B, item id_C]] \<lparr>opt_k = Some 60\<rparr>)
       = [id_A, id_B, id_C]"
proof -
  have d: "distinct (map item_id [item id_A, item id_B, item id_C])"
    by (simp add: item_def js_def id_A_def id_B_def id_C_def)
  have k: "(1::nat) \<le> 60" by simp
  show ?thesis
    using d k rrf_single_list_preserves_order [OF d k] by (simp add: item_def)
qed

text \<open>
  Without distinctness the order is not preserved: in \<open>[A, B, B]\<close> with \<open>k = 1\<close> the id
  B collects \<open>1/3 + 1/4\<close>, more than the \<open>1/2\<close> of A, and the output is \<open>[B, A]\<close>.
\<close>

theorem rrf_single_list_duplicate_counterexample:
  "map res_id (reciprocalRankFusion [[item id_A, item id_B, item id_B]] \<lparr>opt_k = Some 1\<rparr>)
     = [id_B, id_A]
   \<and> map item_id [item id_A, item id_B, item id_B] = [id_A, id_B, id_B]"
  by (simp add: reciprocalRankFusion_def sort_by_score_desc_def scores_get_def scores_set_def
        item_def js_def id_A_def id_B_def)



section \<open>Properties of the reranker\<close>

lemma rerank_model_is_called:
  "int (length candidates) > topN \<Longrightarrow> candidates \<noteq> [] \<Longrightarrow>
   fst (rerank \<lparr>mode = ModeCohere, cohere = Some c, onnx = None\<rparr> query candidates (Some topN))
     \<noteq> []"
  by (simp add: rerank_def rerankWithCohere_def Let_def split: sum.splits prod.splits)

text \<open>
  C4: for every reranker, every query, every non-empty candidate list and every
  \<open>top_n\<close> (given, or the default 12 when the argument is omitted), if the number of
  candidates is at most \<open>top_n\<close> then \<open>rerank\<close> returns the candidates in their input
  order, each with score 1, and the record of calls is empty: neither the remote nor the
  local model is invoked (and nothing is warned).
\<close>

theorem rerank_bypass:
  assumes "candidates \<noteq> []"
    and "int (length candidates) \<le> (case topN of Some n \<Rightarrow> n | None \<Rightarrow> 12)"
  shows "rerank reranker query candidates topN
           = ([], Inr (map (\<lambda>c. \<lparr>rr_id = cand_id c, rr_score = 1\<rparr>) candidates))"
  using assms by (simp add: rerank_def passthrough_def)

theorem rerank_bypass_witness:
  "[\<lparr>cand_id = 7, cand_content = js ''a''\<rparr>, \<lparr>cand_id = 3, cand_content = js ''b''\<rparr>] \<noteq> []
   \<and> int (length [\<lparr>cand_id = 7, cand_content = js ''a''\<rparr>, \<lparr>cand_id = 3, cand_content = js ''b''\<rparr>])
       \<le> (case Some 2 of Some n \<Rightarrow> n | None \<Rightarrow> 12)
   \<and> rerank \<lparr>mode = ModeCohere, cohere = Some \<lparr>client_rerank = (\<lambda>q d n. Inl (ExternalError 0))\<rparr>,
              onnx = None\<rparr>
         (js ''q'')
         [\<lparr>cand_id = 7, cand_content = js ''a''\<rparr>, \<lparr>cand_id = 3, cand_content = js ''b''\<rparr>]
         (Some 2)
       = ([], Inr [\<lparr>rr_id = 7, rr_score = 1\<rparr>, \<lparr>rr_id = 3, rr_score = 1\<rparr>])"
proof -
  let ?cs = "[\<lparr>cand_id = 7, cand_content = js ''a''\<rparr>, \<lparr>cand_id = 3, cand_content = js ''b''\<rparr>]"
  have h1: "?cs \<noteq> []" by simp
  have h2: "int (length ?cs) \<le> (case Some 2 of Some n \<Rightarrow> n | None \<Rightarrow> 12)" by simp
  show ?thesis
    using h1 h2 rerank_bypass [OF h1 h2] by simp
qed


section \<open>Properties of hybrid search\<close>

lemma dropWhile_all: "list_all P xs \<Longrightarrow> dropWhile P xs = []"
  by (induction xs) auto

lemma trim_blank: "list_all is_js_whitespace query \<Longrightarrow> trim query = []"
  by (simp add: trim_def dropWhile_all)

lemma hybridSearch_calls_collaborators:
  "trim query \<noteq> [] \<Longrightarrow>
   set (fst (hybridSearch query db bm25Index vectorIndex embedder options))
     \<supseteq> {CallSearchBM25 query (case bm25Limit options of Some n \<Rightarrow> n | None \<Rightarrow> 200),
         CallEmbedText query}"
  by (auto simp: hybridSearch_def trim_def Let_def split: sum.splits)

text \<open>
  C5: for every query that is empty or consists only of whitespace, \<open>hybridSearch\<close>
  returns the empty result list, and the record of its calls is empty: neither the
  lexical search nor the embedder nor the vector search is invoked.
\<close>

theorem hybridSearch_blank_query:
  assumes "list_all is_js_whitespace query"
  shows "hybridSearch query db bm25Index vectorIndex embedder options = ([], Inr [])"
  using trim_blank [OF assms] by (simp add: hybridSearch_def)

theorem hybridSearch_blank_query_witness:
  "list_all is_js_whitespace (js '' '' @ [0x0009, 0x000A, 0x3000])
   \<and> hybridSearch (js '' '' @ [0x0009, 0x000A, 0x3000])
         \<lparr>chunk_rows = [], last_id = 0\<rparr>
         (\<lambda>q n. Inl (ExternalError 1)) (\<lambda>v n. Inl (ExternalError 2)) (\<lambda>t. Inl (ExternalError 3))
         \<lparr>bm25Limit = None, vectorLimit = None, fusionLimit = None, rrfK = None\<rparr>
       = ([], Inr [])"
proof -
  have h: "list_all is_js_whitespace (js '' '' @ [0x0009, 0x000A, 0x3000])"
    by (simp add: js_def is_js_whitespace_def)
  show ?thesis
    using h hybridSearch_blank_query [OF h] by simp
qed


section \<open>Properties of index loading\<close>




section \<open>Properties of cache keys\<close>

lemma digest_hex_length: "length (digest_hex d) = 64"
  by (simp add: digest_hex_def)

lemma hex_digits_length: "length hex_digits = 16"
  by (simp add: hex_digits_def js_def)

lemma digest_hex_chars: "list_all is_hex_char (digest_hex d)"
  by (simp add: digest_hex_def list_all_iff is_hex_char_def hex_digits_length)

lemma sort_of_permutation:
  fixes xs ys :: "jsstring list"
  assumes "mset xs = mset ys"
  shows "sort xs = sort ys"
  using assms by (intro properties_for_sort) simp_all

text \<open>
  C9: two inputs that agree on provider and model, whose \<open>maxTokens\<close> agree once 4096
  is substituted for an absent value, whose \<open>chunkIds\<close> are permutations of each other
  and whose queries are equal after trimming and lowercasing, get the same key, and
  the key consists of 64 lowercase hexadecimal characters.
\<close>

theorem generateCacheKey_normalizing:
  assumes "ck_provider a = ck_provider b"
    and "ck_model a = ck_model b"
    and "(case ck_maxTokens a of None \<Rightarrow> 4096 | Some n \<Rightarrow> n)
           = (case ck_maxTokens b of None \<Rightarrow> 4096 | Some n \<Rightarrow> n)"
    and "mset (ck_chunkIds a) = mset (ck_chunkIds b)"
    and "toLowerCase lib (trim (ck_query a)) = toLowerCase lib (trim (ck_query b))"
  shows "generateCacheKey lib a = generateCacheKey lib b
       \<and> length (generateCacheKey lib a) = 64
       \<and> list_all is_hex_char (generateCacheKey lib a)"
proof -
  have m: "maxTokens_or_default (ck_maxTokens a) = maxTokens_or_default (ck_maxTokens b)"
    using assms(3) by (auto simp: maxTokens_or_default_def split: option.splits)
  have s: "sort (ck_chunkIds a) = sort (ck_chunkIds b)"
    using assms(4) by (rule sort_of_permutation)
  have "generateCacheKey lib a = generateCacheKey lib b"
    by (simp add: generateCacheKey_def assms(1,2,5) m s)
  then show ?thesis
    by (simp add: generateCacheKey_def digest_hex_length digest_hex_chars)
qed

theorem generateCacheKey_normalizing_witness:
  "ck_provider sample_input_1 = ck_provider sample_input_2
   \<and> ck_model sample_input_1 = ck_model sample_input_2
   \<and> (case ck_maxTokens sample_input_1 of None \<Rightarrow> 4096 | Some n \<Rightarrow> n)
       = (case ck_maxTokens sample_input_2 of None \<Rightarrow> 4096 | Some n \<Rightarrow> n)
   \<and> mset (ck_chunkIds sample_input_1) = mset (ck_chunkIds sample_input_2)
   \<and> toLowerCase sample_library (trim (ck_query sample_input_1))
       = toLowerCase sample_library (trim (ck_query sample_input_2))
   \<and> generateCacheKey sample_library sample_input_1
       = generateCacheKey sample_library sample_input_2
   \<and> length (generateCacheKey sample_library sample_input_1) = 64"
proof -
  have h1: "ck_provider sample_input_1 = ck_provider sample_input_2"
    and h2: "ck_model sample_input_1 = ck_model sample_input_2"
    and h3: "(case ck_maxTokens sample_input_1 of None \<Rightarrow> 4096 | Some n \<Rightarrow> n)
             = (case ck_maxTokens sample_input_2 of None \<Rightarrow> 4096 | Some n \<Rightarrow> n)"
    and h4: "mset (ck_chunkIds sample_input_1) = mset (ck_chunkIds sample_input_2)"
    by (simp_all add: sample_input_1_def sample_input_2_def)
  have h5: "toLowerCase sample_library (trim (ck_query sample_input_1))
          = toLowerCase sample_library (trim (ck_query sample_input_2))"
    by (simp add: sample_input_1_def sample_input_2_def sample_library_def
          ascii_toLowerCase_def trim_def is_js_whitespace_def js_def)
  show ?thesis
    using h1 h2 h3 h4 h5
      generateCacheKey_normalizing [OF h1 h2 h3 h4 h5]
    by blast
qed


section \<open>Properties of the repository walker\<close>













text \<open>
  A property that is present with the value \<open>undefined\<close> overrides the default, and no
  size is greater than \<open>undefined\<close>: the limit is then switched off. \<open>indexRepository\<close>
  passes \<open>{ maxFileSizeBytes: options.maxFileSizeBytes }\<close>, which is this case when the
  option is not set.
\<close>

lemma discoverFiles_undefined_limit:
  "set (projr (snd (discoverFiles sample_world (js ''/r'')
                      (Some \<lparr>p_maxFileSizeBytes = Undefined, p_generatedDirs = Absent\<rparr>))))
     = {js ''/r/big.ts'', js ''/r/ok.ts''}"
  by (auto simp: discoverFiles_def ignore_filter_def sample_world_def join_path_def js_def
        merge_config_def DEFAULT_CONFIG_def exceeds_limit_def spread_prop_def)


section \<open>Properties of the incremental update\<close>









text \<open>
  C10: when the store opens and the diff reports no changed path, \<open>updateRepository\<close>
  returns statistics whose four counters are 0, the store is the one it started with,
  and no write (no delete by file, no batch insert) has been made.
\<close>

theorem updateRepository_no_changes:
  assumes "initDatabase_error w = None" and "git_diffSummary w = Inr []"
  shows "updateRepository w options db
           = \<lparr>out_db = db, out_ops = [], out_warnings = [],
              out_result = Inr \<lparr>filesDiscovered = 0, filesProcessed = 0, filesFailed = 0,
                                chunksCreated = 0, durationMs = now_end w - now_start w\<rparr>\<rparr>"
  using assms by (simp add: updateRepository_def initial_stats_def)

theorem updateRepository_no_changes_witness:
  "initDatabase_error quiet_index_world = None
   \<and> git_diffSummary quiet_index_world = Inr []
   \<and> updateRepository quiet_index_world sample_options empty_store
       = \<lparr>out_db = empty_store, out_ops = [], out_warnings = [],
          out_result = Inr \<lparr>filesDiscovered = 0, filesProcessed = 0, filesFailed = 0,
                            chunksCreated = 0, durationMs = 30\<rparr>\<rparr>"
proof -
  have h1: "initDatabase_error quiet_index_world = None"
    and h2: "git_diffSummary quiet_index_world = Inr []"
    by (simp_all add: quiet_index_world_def sample_index_world_def)
  have d: "now_end quiet_index_world - now_start quiet_index_world = 30"
    by (simp add: quiet_index_world_def sample_index_world_def)
  show ?thesis
    using h1 h2 d updateRepository_no_changes [OF h1 h2, of sample_options empty_store]
    by simp
qed


end
